theory Spec2Isabelle
  imports Main "HOL-Library.Char_ord" "HOL-Library.List_Lexorder"
begin

section \<open>The sidebar index of \<open>wasmtime_environ::isa\<close>\<close>

text \<open>
  The repository consists of one generated file,
  \<^verbatim>\<open>src/api/wasmtime_environ/isa/sidebar-items.js\<close>. The file is a single
  JavaScript expression statement:
  \<^verbatim>\<open>initSidebarItems({"enum":[["CallConv","..."]],"mod":[["fde",""]], ... });\<close>
  that is, a call of the identifier \<^verbatim>\<open>initSidebarItems\<close> on one object literal whose
  property values are array literals of two-element array literals of string literals.

  The development embeds the statement as a syntax tree, gives the fragment of
  JavaScript that the file uses an evaluator (string, array and object literals,
  identifier references, calls, expression statements), and proves the properties of the
  index on the value that the evaluator builds.
\<close>

subsection \<open>Syntax\<close>

text \<open>
  Expressions of the fragment. Property names of an object literal are string literals
  in the file, so a property is a pair of a string and an expression. The file holds
  ASCII characters only and no escape sequence, so a JavaScript string literal is the
  \<^typ>\<open>string\<close> of its characters.
\<close>

datatype expr =
    Str string
  | Arr "expr list"
  | Obj "(string \<times> expr) list"
  | Ident string
  | Call expr "expr list"

datatype stmt = ExprStmt expr

text \<open>The object literal of the file, property by property, in the order written.\<close>

definition items_literal :: expr where
  "items_literal = Obj
     [(''enum'', Arr [Arr [Str ''CallConv'', Str ''Calling convention identifiers.'']]),
      (''mod'', Arr [Arr [Str ''fde'', Str '''']]),
      (''struct'', Arr [Arr [Str ''TargetFrontendConfig'',
         Str ''This struct provides information that a frontend may need to know about a target to produce Cranelift IR for the target.'']]),
      (''trait'', Arr [Arr [Str ''TargetIsa'',
         Str ''Methods that are specialized to a target ISA. Implies a Display trait that shows the shared flags, as well as any isa-specific flags.'']]),
      (''type'', Arr [Arr [Str ''RegUnit'',
         Str ''Register units are the smallest units of register allocation.'']])]"

text \<open>The file: one expression statement, the call with the literal as its one argument.\<close>

definition sidebar_items_js :: "stmt list" where
  "sidebar_items_js = [ExprStmt (Call (Ident ''initSidebarItems'') [items_literal])]"

subsection \<open>Values, exceptions and the host\<close>

text \<open>
  An object value keeps its properties in creation order. (JavaScript lists names that
  are array indices before the others; the file has no such name, and no statement below
  depends on the order in which a value lists its names.) \<open>VFun h\<close> is a function \<open>h\<close>
  that the embedding page provides; the file defines none itself.
\<close>

datatype val =
    VUndef
  | VStr string
  | VArr "val list"
  | VObj "(string \<times> val) list"
  | VFun string

text \<open>
  The exceptions of the fragment: a reference to an unbound identifier, a call of a value
  that is not a function, and whatever value a function of the host throws.
\<close>

datatype error = ReferenceError string | TypeError | Thrown val

text \<open>
  What a run can observe and change: the global bindings, and the rest of the page (the
  document that a host function renders into, for one), of a type \<open>'w\<close> that the file
  knows nothing about.
\<close>

record 'w state =
  globals :: "string \<rightharpoonup> val"
  world :: 'w

text \<open>
  The outcome of an evaluation is a value or an exception, each with the state reached.
  The functions of the host are not part of the file, so their behaviour is a parameter:
  \<open>host h vs \<sigma>\<close> is the outcome of calling the function \<open>h\<close> on the argument values
  \<open>vs\<close> in the state \<open>\<sigma>\<close>. It may return any value, throw, and change the globals and the
  world.
\<close>

type_synonym 'w host = "string \<Rightarrow> val list \<Rightarrow> 'w state \<Rightarrow> (error \<times> 'w state) + (val \<times> 'w state)"

text \<open>
  Three hosts for concrete runs: one with no working function at all, one whose functions
  log their name and arguments in the world and return \<open>undefined\<close>, and one whose
  functions throw their first argument after logging.
\<close>

definition no_functions :: "'w host" where
  "no_functions h vs \<sigma> = Inl (TypeError, \<sigma>)"

definition logging_host :: "(string \<times> val list) list host" where
  "logging_host h vs \<sigma> = Inr (VUndef, \<sigma>\<lparr>world := world \<sigma> @ [(h, vs)]\<rparr>)"

definition throwing_host :: "(string \<times> val list) list host" where
  "throwing_host h vs \<sigma> =
     Inl (Thrown (case vs of [] \<Rightarrow> VUndef | v # rest \<Rightarrow> v), \<sigma>\<lparr>world := world \<sigma> @ [(h, vs)]\<rparr>)"

definition empty_state :: "unit state" where
  "empty_state = \<lparr>globals = Map.empty, world = ()\<rparr>"

subsection \<open>Evaluation\<close>

text \<open>
  Defining a property of an object under construction: a name that is already present
  keeps its place and takes the new value, a new name goes last.
\<close>

fun define_prop :: "string \<Rightarrow> val \<Rightarrow> (string \<times> val) list \<Rightarrow> (string \<times> val) list" where
  "define_prop k v [] = [(k, v)]"
| "define_prop k v ((k', v') # ps) =
     (if k' = k then (k, v) # ps else (k', v') # define_prop k v ps)"

text \<open>
  Evaluation threads the state from left to right and stops at the first exception, which
  is the \<open>Inl\<close> result. A call evaluates its callee first (an unbound identifier throws
  there), then its arguments, and only then checks that the callee is a function. The
  outcome of a call of a host function is the host's: its value, its exception and its
  state are passed on as they are.
\<close>

fun eval :: "'w host \<Rightarrow> expr \<Rightarrow> 'w state \<Rightarrow> (error \<times> 'w state) + (val \<times> 'w state)"
  and eval_list :: "'w host \<Rightarrow> expr list \<Rightarrow> 'w state \<Rightarrow> (error \<times> 'w state) + (val list \<times> 'w state)"
  and eval_props :: "'w host \<Rightarrow> (string \<times> expr) list \<Rightarrow> (string \<times> val) list \<Rightarrow> 'w state
        \<Rightarrow> (error \<times> 'w state) + ((string \<times> val) list \<times> 'w state)"
where
  "eval host (Str s) \<sigma> = Inr (VStr s, \<sigma>)"
| "eval host (Arr es) \<sigma> =
     (case eval_list host es \<sigma> of
        Inl err \<Rightarrow> Inl err
      | Inr (vs, \<sigma>') \<Rightarrow> Inr (VArr vs, \<sigma>'))"
| "eval host (Obj ps) \<sigma> =
     (case eval_props host ps [] \<sigma> of
        Inl err \<Rightarrow> Inl err
      | Inr (props, \<sigma>') \<Rightarrow> Inr (VObj props, \<sigma>'))"
| "eval host (Ident x) \<sigma> =
     (case globals \<sigma> x of
        None \<Rightarrow> Inl (ReferenceError x, \<sigma>)
      | Some v \<Rightarrow> Inr (v, \<sigma>))"
| "eval host (Call f args) \<sigma> =
     (case eval host f \<sigma> of
        Inl err \<Rightarrow> Inl err
      | Inr (fv, \<sigma>1) \<Rightarrow>
          (case eval_list host args \<sigma>1 of
             Inl err \<Rightarrow> Inl err
           | Inr (vs, \<sigma>2) \<Rightarrow>
               (case fv of
                  VFun h \<Rightarrow> host h vs \<sigma>2
                | _ \<Rightarrow> Inl (TypeError, \<sigma>2))))"
| "eval_list host [] \<sigma> = Inr ([], \<sigma>)"
| "eval_list host (e # es) \<sigma> =
     (case eval host e \<sigma> of
        Inl err \<Rightarrow> Inl err
      | Inr (v, \<sigma>1) \<Rightarrow>
          (case eval_list host es \<sigma>1 of
             Inl err \<Rightarrow> Inl err
           | Inr (vs, \<sigma>2) \<Rightarrow> Inr (v # vs, \<sigma>2)))"
| "eval_props host [] props \<sigma> = Inr (props, \<sigma>)"
| "eval_props host ((k, e) # ps) props \<sigma> =
     (case eval host e \<sigma> of
        Inl err \<Rightarrow> Inl err
      | Inr (v, \<sigma>1) \<Rightarrow> eval_props host ps (define_prop k v props) \<sigma>1)"

text \<open>
  An expression statement evaluates its expression and drops the value. A script runs its
  statements in order; the first exception ends it.
\<close>

fun exec :: "'w host \<Rightarrow> stmt \<Rightarrow> 'w state \<Rightarrow> (error \<times> 'w state) + 'w state" where
  "exec host (ExprStmt e) \<sigma> =
     (case eval host e \<sigma> of
        Inl err \<Rightarrow> Inl err
      | Inr (v, \<sigma>') \<Rightarrow> Inr \<sigma>')"

fun run :: "'w host \<Rightarrow> stmt list \<Rightarrow> 'w state \<Rightarrow> (error \<times> 'w state) + 'w state" where
  "run host [] \<sigma> = Inr \<sigma>"
| "run host (s # ss) \<sigma> =
     (case exec host s \<sigma> of
        Inl err \<Rightarrow> Inl err
      | Inr \<sigma>' \<Rightarrow> run host ss \<sigma>')"

subsection \<open>Syntactic checks\<close>

text \<open>
  An expression is literal-only when it is built from string, array and object literals
  alone: no identifier is read and nothing is called.
\<close>

fun literal_only :: "expr \<Rightarrow> bool"
  and literal_only_list :: "expr list \<Rightarrow> bool"
  and literal_only_props :: "(string \<times> expr) list \<Rightarrow> bool"
where
  "literal_only (Str s) = True"
| "literal_only (Arr es) = literal_only_list es"
| "literal_only (Obj ps) = literal_only_props ps"
| "literal_only (Ident x) = False"
| "literal_only (Call f args) = False"
| "literal_only_list [] = True"
| "literal_only_list (e # es) = (literal_only e \<and> literal_only_list es)"
| "literal_only_props [] = True"
| "literal_only_props ((k, e) # ps) = (literal_only e \<and> literal_only_props ps)"

text \<open>
  Every call expression of a program, with its callee and argument expressions, in
  evaluation order; calls nested in callees, arguments and literals are included.
\<close>

fun calls_in :: "expr \<Rightarrow> (expr \<times> expr list) list"
  and calls_in_list :: "expr list \<Rightarrow> (expr \<times> expr list) list"
  and calls_in_props :: "(string \<times> expr) list \<Rightarrow> (expr \<times> expr list) list"
where
  "calls_in (Str s) = []"
| "calls_in (Arr es) = calls_in_list es"
| "calls_in (Obj ps) = calls_in_props ps"
| "calls_in (Ident x) = []"
| "calls_in (Call f args) = calls_in f @ calls_in_list args @ [(f, args)]"
| "calls_in_list [] = []"
| "calls_in_list (e # es) = calls_in e @ calls_in_list es"
| "calls_in_props [] = []"
| "calls_in_props ((k, e) # ps) = calls_in e @ calls_in_props ps"

fun call_sites :: "stmt list \<Rightarrow> (expr \<times> expr list) list" where
  "call_sites [] = []"
| "call_sites (ExprStmt e # ss) = calls_in e @ call_sites ss"

fun lit_keys :: "expr \<Rightarrow> string list" where
  "lit_keys (Obj ps) = map fst ps"
| "lit_keys e = []"

subsection \<open>The index and its accessors\<close>

text \<open>
  The index is the value the object literal evaluates to. The definition evaluates it in
  the empty state of a host with no function; \<open>eval_items_literal\<close> below shows that every
  host and every state give this value.
\<close>

definition sidebar_index :: val where
  "sidebar_index =
     (case eval no_functions items_literal empty_state of
        Inr (v, \<sigma>) \<Rightarrow> v
      | Inl err \<Rightarrow> VUndef)"

text \<open>
  Accessors on untyped values. Each one checks the shape it reads: the names of an
  object, the value under a name, a two-element array of two strings read as a
  (name, description) pair, an array of such pairs.
\<close>

fun obj_keys :: "val \<Rightarrow> string list" where
  "obj_keys (VObj ps) = map fst ps"
| "obj_keys v = []"

fun obj_get :: "val \<Rightarrow> string \<Rightarrow> val option" where
  "obj_get (VObj ps) k = map_of ps k"
| "obj_get v k = None"

fun as_pair :: "val \<Rightarrow> (string \<times> string) option" where
  "as_pair (VArr [VStr n, VStr d]) = Some (n, d)"
| "as_pair v = None"

fun as_pairs :: "val \<Rightarrow> (string \<times> string) list option" where
  "as_pairs (VArr vs) = those (map as_pair vs)"
| "as_pairs v = None"

fun single_pair :: "val \<Rightarrow> bool" where
  "single_pair (VArr [VArr [VStr n, VStr d]]) = True"
| "single_pair v = False"

fun is_index :: "val \<Rightarrow> bool" where
  "is_index (VObj ps) = list_all (\<lambda>(k, a). as_pairs a \<noteq> None) ps"
| "is_index v = False"

text \<open>
  The pairs listed under one category (none when the category is absent or its value is
  not an array of pairs), and the pairs of all categories in order.
\<close>

definition entries_under :: "val \<Rightarrow> string \<Rightarrow> (string \<times> string) list" where
  "entries_under v k =
     (case obj_get v k of
        None \<Rightarrow> []
      | Some a \<Rightarrow> (case as_pairs a of None \<Rightarrow> [] | Some ps \<Rightarrow> ps))"

definition all_entries :: "val \<Rightarrow> (string \<times> string) list" where
  "all_entries v = concat (map (entries_under v) (obj_keys v))"

text \<open>A description is one line when it holds no line feed and no carriage return.\<close>

definition one_line :: "string \<Rightarrow> bool" where
  "one_line d = (CHR 0x0A \<notin> set d \<and> CHR 0x0D \<notin> set d)"

section \<open>Properties of evaluation\<close>

text \<open>
  A literal-only expression evaluates to one value, the same under every host and in
  every state, throws nothing and leaves the state as it was. The value does not depend
  on the type of the world either, so the statement speaks of two state types at once.
  The three parts follow the mutual recursion of the evaluator; the property list is
  generalised over the properties defined so far.
\<close>

lemma literal_only_eval:
  "literal_only e \<Longrightarrow>
     \<exists>v. (\<forall>host (\<sigma> :: 'a state). eval host e \<sigma> = Inr (v, \<sigma>))
        \<and> (\<forall>host (\<sigma> :: 'b state). eval host e \<sigma> = Inr (v, \<sigma>))"
  "literal_only_list es \<Longrightarrow>
     \<exists>vs. (\<forall>host (\<sigma> :: 'a state). eval_list host es \<sigma> = Inr (vs, \<sigma>))
         \<and> (\<forall>host (\<sigma> :: 'b state). eval_list host es \<sigma> = Inr (vs, \<sigma>))"
  "literal_only_props ps \<Longrightarrow>
     \<forall>acc. \<exists>fs. (\<forall>host (\<sigma> :: 'a state). eval_props host ps acc \<sigma> = Inr (fs, \<sigma>))
              \<and> (\<forall>host (\<sigma> :: 'b state). eval_props host ps acc \<sigma> = Inr (fs, \<sigma>))"
proof (induction e and es and ps rule: literal_only_literal_only_list_literal_only_props.induct)
  case (3 ps)
  then obtain fs where
    "\<forall>host (\<sigma> :: 'a state). eval_props host ps [] \<sigma> = Inr (fs, \<sigma>)"
    "\<forall>host (\<sigma> :: 'b state). eval_props host ps [] \<sigma> = Inr (fs, \<sigma>)"
    by fastforce
  then show ?case by simp
next
  case (7 e es)
  then obtain v where v:
    "\<forall>host (\<sigma> :: 'a state). eval host e \<sigma> = Inr (v, \<sigma>)"
    "\<forall>host (\<sigma> :: 'b state). eval host e \<sigma> = Inr (v, \<sigma>)"
    by auto
  from 7 obtain vs where vs:
    "\<forall>host (\<sigma> :: 'a state). eval_list host es \<sigma> = Inr (vs, \<sigma>)"
    "\<forall>host (\<sigma> :: 'b state). eval_list host es \<sigma> = Inr (vs, \<sigma>)"
    by auto
  from v vs show ?case by simp
next
  case (9 k e ps)
  then obtain v where v:
    "\<forall>host (\<sigma> :: 'a state). eval host e \<sigma> = Inr (v, \<sigma>)"
    "\<forall>host (\<sigma> :: 'b state). eval host e \<sigma> = Inr (v, \<sigma>)"
    by auto
  from 9 have ps:
    "\<forall>acc. \<exists>fs. (\<forall>host (\<sigma> :: 'a state). eval_props host ps acc \<sigma> = Inr (fs, \<sigma>))
              \<and> (\<forall>host (\<sigma> :: 'b state). eval_props host ps acc \<sigma> = Inr (fs, \<sigma>))"
    by simp
  show ?case
  proof
    fix acc
    from ps obtain fs where
      "\<forall>host (\<sigma> :: 'a state). eval_props host ps (define_prop k v acc) \<sigma> = Inr (fs, \<sigma>)"
      "\<forall>host (\<sigma> :: 'b state). eval_props host ps (define_prop k v acc) \<sigma> = Inr (fs, \<sigma>)"
      by blast
    with v show
      "\<exists>fs. (\<forall>host (\<sigma> :: 'a state). eval_props host ((k, e) # ps) acc \<sigma> = Inr (fs, \<sigma>))
           \<and> (\<forall>host (\<sigma> :: 'b state). eval_props host ((k, e) # ps) acc \<sigma> = Inr (fs, \<sigma>))"
      by simp
  qed
qed auto

lemma literal_only_items: "literal_only items_literal"
  by (simp add: items_literal_def)

lemma eval_items_literal: "eval host items_literal \<sigma> = Inr (sidebar_index, \<sigma>)"
proof -
  from literal_only_eval(1) [OF literal_only_items]
  obtain v where v:
    "\<forall>host (\<sigma> :: 'a state). eval host items_literal \<sigma> = Inr (v, \<sigma>)"
    "\<forall>host (\<sigma> :: unit state). eval host items_literal \<sigma> = Inr (v, \<sigma>)"
    by blast
  from v(2) have "sidebar_index = v" by (simp add: sidebar_index_def)
  with v(1) show ?thesis by simp
qed

lemmas index_defs = sidebar_index_def items_literal_def empty_state_def

text \<open>
  The file depends on its host for the callee: where \<^verbatim>\<open>initSidebarItems\<close> is unbound the
  statement throws a reference error, and where it is bound to something that is not a
  function it throws a type error. In both cases no function of the host is called and
  the state is the one the run started in.
\<close>

lemma run_unbound:
  "globals \<sigma> ''initSidebarItems'' = None \<Longrightarrow>
     run host sidebar_items_js \<sigma> = Inl (ReferenceError ''initSidebarItems'', \<sigma>)"
  by (simp add: sidebar_items_js_def)

lemma run_not_a_function:
  "globals \<sigma> ''initSidebarItems'' = Some (VStr s) \<Longrightarrow>
     run host sidebar_items_js \<sigma> = Inl (TypeError, \<sigma>)"
  by (simp add: sidebar_items_js_def eval_items_literal)

text \<open>
  An exception of the host function is the exception of the file: under the throwing
  host the run ends with the index thrown, after the one logged call.
\<close>

lemma run_host_throws:
  "run throwing_host sidebar_items_js
       \<lparr>globals = [''initSidebarItems'' \<mapsto> VFun ''render''], world = []\<rparr>
     = Inl (Thrown sidebar_index,
            \<lparr>globals = [''initSidebarItems'' \<mapsto> VFun ''render''],
             world = [(''render'', [sidebar_index])]\<rparr>)"
  by (simp add: sidebar_items_js_def eval_items_literal throwing_host_def)

text \<open>
  The equation of the first claim below is a property of this file, not of the evaluator:
  a script that makes the call twice has a different outcome under the logging host.
\<close>

lemma run_two_calls:
  "run logging_host
       [ExprStmt (Call (Ident ''initSidebarItems'') [items_literal]),
        ExprStmt (Call (Ident ''initSidebarItems'') [items_literal])]
       \<lparr>globals = [''initSidebarItems'' \<mapsto> VFun ''render''], world = []\<rparr>
     = Inr \<lparr>globals = [''initSidebarItems'' \<mapsto> VFun ''render''],
            world = [(''render'', [sidebar_index]), (''render'', [sidebar_index])]\<rparr>"
  by (simp add: eval_items_literal logging_host_def)

section \<open>The claims\<close>

text \<open>
  C1. The file's only observable interface is the single call
  \<^verbatim>\<open>initSidebarItems(object)\<close>: the program has exactly one call expression, its callee
  is the identifier \<^verbatim>\<open>initSidebarItems\<close> and its one argument is the object literal, which
  is literal-only and evaluates to an object whose every property value is an array of
  [name, description] pairs of strings. Whatever the functions of the host do, in every
  state that binds \<^verbatim>\<open>initSidebarItems\<close> to a function \<open>h\<close> the outcome of running the file
  is the outcome of one call of \<open>h\<close> on the index in that state: the exception of the call
  with the state it left if it throws, and otherwise the state it left, its value
  dropped. The file adds nothing of its own: no other call, no binding, no other change
  of the globals or the world.
\<close>

theorem sidebar_items_js_interface:
  "call_sites sidebar_items_js = [(Ident ''initSidebarItems'', [items_literal])]
   \<and> literal_only items_literal
   \<and> is_index sidebar_index
   \<and> (\<forall>(host :: 'w host) \<sigma> h. globals \<sigma> ''initSidebarItems'' = Some (VFun h) \<longrightarrow>
         run host sidebar_items_js \<sigma> =
           (case host h [sidebar_index] \<sigma> of
              Inl err \<Rightarrow> Inl err
            | Inr (v, \<sigma>') \<Rightarrow> Inr \<sigma>'))"
proof (intro conjI allI impI)
  have "calls_in items_literal = []" by (simp add: items_literal_def)
  then show "call_sites sidebar_items_js = [(Ident ''initSidebarItems'', [items_literal])]"
    by (simp add: sidebar_items_js_def)
  show "literal_only items_literal" by (rule literal_only_items)
  show "is_index sidebar_index" by (simp add: index_defs)
next
  fix host :: "'w host" and \<sigma> :: "'w state" and h
  assume "globals \<sigma> ''initSidebarItems'' = Some (VFun h)"
  then show "run host sidebar_items_js \<sigma> =
      (case host h [sidebar_index] \<sigma> of Inl err \<Rightarrow> Inl err | Inr (v, \<sigma>') \<Rightarrow> Inr \<sigma>')"
    by (simp add: sidebar_items_js_def eval_items_literal split: sum.splits)
qed

text \<open>
  The theorem at a concrete host and state: only \<^verbatim>\<open>initSidebarItems\<close> is bound, to a
  function named \<open>render\<close> of the logging host, and the log is empty. The run ends with
  the one call of \<open>render\<close> on the index in the log.
\<close>

theorem sidebar_items_js_interface_witness:
  "globals \<lparr>globals = [''initSidebarItems'' \<mapsto> VFun ''render''],
            world = ([] :: (string \<times> val list) list)\<rparr>
       ''initSidebarItems'' = Some (VFun ''render'')
   \<and> run logging_host sidebar_items_js
         \<lparr>globals = [''initSidebarItems'' \<mapsto> VFun ''render''], world = []\<rparr>
       = Inr \<lparr>globals = [''initSidebarItems'' \<mapsto> VFun ''render''],
              world = [(''render'', [sidebar_index])]\<rparr>"
  using sidebar_items_js_interface [where 'w = "(string \<times> val list) list"]
  by (simp add: logging_host_def)

text \<open>
  C2. The object passed to \<^verbatim>\<open>initSidebarItems\<close> has exactly the key set
  {"enum", "mod", "struct", "trait", "type"}, and the value under each of these keys is
  an array of (symbol name, description) pairs.
\<close>

theorem sidebar_index_categories:
  "set (obj_keys sidebar_index) = {''enum'', ''mod'', ''struct'', ''trait'', ''type''}
   \<and> list_all (\<lambda>k. case obj_get sidebar_index k of
                       Some a \<Rightarrow> as_pairs a \<noteq> None
                     | None \<Rightarrow> False)
        [''enum'', ''mod'', ''struct'', ''trait'', ''type'']"
  by (simp add: index_defs)

text \<open>
  C3, as stated: the literal lists exactly four entries and every listed entry carries a
  non-empty one-line description. This fails on the file: it lists five entries, and the
  description of \<open>fde\<close> is the empty string.
\<close>

theorem sidebar_index_four_described_entries_refuted:
  "\<not> (length (all_entries sidebar_index) = 4
       \<and> list_all (\<lambda>(n, d). d \<noteq> [] \<and> one_line d) (all_entries sidebar_index))"
  by (simp add: index_defs all_entries_def entries_under_def)

text \<open>
  C3, amended: the literal lists exactly five entries; every description is a single
  line; four of the descriptions are non-empty, and the one empty description is that of
  the entry \<open>fde\<close>, the only entry under "mod".
\<close>

theorem sidebar_index_five_entries:
  "length (all_entries sidebar_index) = 5
   \<and> list_all (\<lambda>(n, d). one_line d) (all_entries sidebar_index)
   \<and> length (filter (\<lambda>(n, d). d \<noteq> []) (all_entries sidebar_index)) = 4
   \<and> filter (\<lambda>(n, d). d = []) (all_entries sidebar_index) = [(''fde'', [])]
   \<and> entries_under sidebar_index ''mod'' = [(''fde'', [])]"
  by (simp add: index_defs all_entries_def entries_under_def one_line_def)

text \<open>
  C4, as stated: every key of the object belongs to {"enum", "struct", "trait", "type"}.
  This fails on the file, which has the key "mod".
\<close>

theorem sidebar_index_keys_without_mod_refuted:
  "\<not> list_all (\<lambda>k. k \<in> {''enum'', ''struct'', ''trait'', ''type''}) (obj_keys sidebar_index)"
  by (simp add: index_defs)

text \<open>
  C4, amended: the categories of the index are enums, modules, structs, traits and type
  aliases; every key of the object belongs to {"enum", "mod", "struct", "trait", "type"},
  and "mod" is one of the keys.
\<close>

theorem sidebar_index_keys_with_mod:
  "list_all (\<lambda>k. k \<in> {''enum'', ''mod'', ''struct'', ''trait'', ''type''})
     (obj_keys sidebar_index)
   \<and> ''mod'' \<in> set (obj_keys sidebar_index)"
  by (simp add: index_defs)

text \<open>
  C5. Each of the names TargetIsa, CallConv, RegUnit and TargetFrontendConfig is the name
  component of a pair of the index: TargetIsa under "trait", CallConv under "enum",
  RegUnit under "type" and TargetFrontendConfig under "struct".
\<close>

theorem sidebar_index_symbol_names:
  "''TargetIsa'' \<in> fst ` set (entries_under sidebar_index ''trait'')
   \<and> ''CallConv'' \<in> fst ` set (entries_under sidebar_index ''enum'')
   \<and> ''RegUnit'' \<in> fst ` set (entries_under sidebar_index ''type'')
   \<and> ''TargetFrontendConfig'' \<in> fst ` set (entries_under sidebar_index ''struct'')"
  by (simp add: index_defs entries_under_def)

text \<open>
  C6. The argument of the call is a constant: the literal reads no identifier and calls
  nothing, and two evaluations of it, under any two hosts and in any two states, have the
  same outcome (the value or the exception, the state left aside).
\<close>

theorem items_literal_deterministic:
  "literal_only items_literal
   \<and> (\<forall>host host' \<sigma> \<sigma>'.
         map_sum fst fst (eval host items_literal \<sigma>) = map_sum fst fst (eval host' items_literal \<sigma>'))"
  by (simp add: literal_only_items eval_items_literal)

text \<open>
  C7. Constructing the index never fails: under every host and in every state the
  evaluation of the object literal returns the index and leaves the state unchanged, and
  it returns no exception.
\<close>

theorem items_literal_never_fails:
  "(\<forall>host \<sigma>. eval host items_literal \<sigma> = Inr (sidebar_index, \<sigma>))
   \<and> (\<forall>host \<sigma> err. eval host items_literal \<sigma> \<noteq> Inl err)"
  by (simp add: eval_items_literal)

text \<open>
  C8. The object has five keys, and the array under every key has exactly one element, a
  two-element array whose components are both strings.
\<close>

theorem sidebar_index_single_pairs:
  "length (obj_keys sidebar_index) = 5
   \<and> list_all (\<lambda>k. case obj_get sidebar_index k of
                       Some a \<Rightarrow> single_pair a
                     | None \<Rightarrow> False)
        (obj_keys sidebar_index)"
  by (simp add: index_defs)

text \<open>
  C9. Not every entry has a description: the array under "mod" is [["fde", ""]], whose
  description is the empty string, while under each of the other four keys there is a
  pair and every pair has a non-empty description.
\<close>

theorem sidebar_index_mod_undescribed:
  "obj_get sidebar_index ''mod'' = Some (VArr [VArr [VStr ''fde'', VStr []]])
   \<and> length (filter (\<lambda>k. k \<noteq> ''mod'') (obj_keys sidebar_index)) = 4
   \<and> list_all (\<lambda>k. entries_under sidebar_index k \<noteq> []
                     \<and> list_all (\<lambda>(n, d). d \<noteq> []) (entries_under sidebar_index k))
        (filter (\<lambda>k. k \<noteq> ''mod'') (obj_keys sidebar_index))"
  by (simp add: index_defs entries_under_def)

text \<open>
  C10. The symbol names of the five pairs are pairwise distinct across all categories,
  and the keys of the literal, in the order written, are "enum", "mod", "struct",
  "trait", "type", which is strictly ascending in the lexicographic order of strings.
\<close>

theorem sidebar_index_names_distinct_keys_ascending:
  "length (all_entries sidebar_index) = 5
   \<and> distinct (map fst (all_entries sidebar_index))
   \<and> lit_keys items_literal = [''enum'', ''mod'', ''struct'', ''trait'', ''type'']
   \<and> sorted_wrt (<) (lit_keys items_literal)"
  by (simp add: index_defs all_entries_def entries_under_def)

end
